theory Spec2Isabelle
  imports Complex_Main
begin

section \<open>Exceptions\<close>

text \<open>
  The exceptions the three modules raise or meet. \<open>KeyboardInterrupt\<close> and \<open>SystemExit\<close>
  derive from \<open>BaseException\<close> only, so an \<open>except Exception\<close> clause lets them pass.
\<close>

datatype exn =
    NotFoundError
  | AlreadyExistsError
  | BackendError
  | ConnectionError
  | ValueError string
  | KeyboardInterrupt
  | SystemExit int

fun is_Exception :: "exn \<Rightarrow> bool" where
  "is_Exception KeyboardInterrupt = False"
| "is_Exception (SystemExit code) = False"
| "is_Exception e = True"

section \<open>Configuration (src/config/config.py)\<close>

text \<open>
  The process environment after \<open>load_dotenv()\<close> is a partial map from variable names to
  values. \<open>os.getenv(k)\<close> is the lookup itself; \<open>os.getenv(k, d)\<close> substitutes \<open>d\<close> only
  when the variable is absent (a variable set to the empty string stays empty).
\<close>

type_synonym environ = "string \<Rightarrow> string option"

definition getenv :: "environ \<Rightarrow> string \<Rightarrow> string option" where
  "getenv env k = env k"

definition getenv_default :: "environ \<Rightarrow> string \<Rightarrow> string \<Rightarrow> string" where
  "getenv_default env k d = (case env k of None \<Rightarrow> d | Some v \<Rightarrow> v)"

text \<open>The class attributes of \<open>Config\<close>, in the order of the source.\<close>

record Config =
  TEMPORAL_ADDRESS :: string
  TEMPORAL_NAMESPACE :: string
  TEMPORAL_API_KEY :: "string option"
  TEMPORAL_TASK_QUEUE :: string
  DATABASE_URL :: string
  GOOGLE_API_KEY :: "string option"
  OPENAI_API_KEY :: "string option"
  ANTHROPIC_API_KEY :: "string option"
  DATAFORSEO_LOGIN :: "string option"
  DATAFORSEO_PASSWORD :: "string option"
  SERPER_API_KEY :: "string option"
  ZEP_API_KEY :: "string option"
  DEFAULT_APP :: string
  ENVIRONMENT :: string
  LOG_LEVEL :: string

text \<open>The class body: every attribute is read from the environment once, at import.\<close>

definition load_config :: "environ \<Rightarrow> Config" where
  "load_config env = \<lparr>
     TEMPORAL_ADDRESS = getenv_default env ''TEMPORAL_ADDRESS'' ''localhost:7233'',
     TEMPORAL_NAMESPACE = getenv_default env ''TEMPORAL_NAMESPACE'' ''default'',
     TEMPORAL_API_KEY = getenv env ''TEMPORAL_API_KEY'',
     TEMPORAL_TASK_QUEUE = getenv_default env ''TEMPORAL_TASK_QUEUE'' ''quest-content-queue'',
     DATABASE_URL = getenv_default env ''DATABASE_URL'' [],
     GOOGLE_API_KEY = getenv env ''GOOGLE_API_KEY'',
     OPENAI_API_KEY = getenv env ''OPENAI_API_KEY'',
     ANTHROPIC_API_KEY = getenv env ''ANTHROPIC_API_KEY'',
     DATAFORSEO_LOGIN = getenv env ''DATAFORSEO_LOGIN'',
     DATAFORSEO_PASSWORD = getenv env ''DATAFORSEO_PASSWORD'',
     SERPER_API_KEY = getenv env ''SERPER_API_KEY'',
     ZEP_API_KEY = getenv env ''ZEP_API_KEY'',
     DEFAULT_APP = getenv_default env ''DEFAULT_APP'' ''placement'',
     ENVIRONMENT = getenv_default env ''ENVIRONMENT'' ''development'',
     LOG_LEVEL = getenv_default env ''LOG_LEVEL'' ''info'' \<rparr>"

text \<open>
  Python truthiness of the two value shapes the class holds: a \<open>str\<close> is true when it is
  not empty, an \<open>Optional[str]\<close> when it is neither \<open>None\<close> nor empty.
\<close>

definition truthy_str :: "string \<Rightarrow> bool" where
  "truthy_str s = (s \<noteq> [])"

fun truthy :: "string option \<Rightarrow> bool" where
  "truthy None = False"
| "truthy (Some s) = truthy_str s"

subsection \<open>\<open>Config.validate_required\<close>\<close>

text \<open>
  The dictionary \<open>required\<close> keeps insertion order, so it is an association list; the
  three orchestration settings are \<open>str\<close>, lifted to the shape of the credentials.
\<close>

definition required :: "Config \<Rightarrow> (string \<times> string option) list" where
  "required cls =
     [ (''TEMPORAL_ADDRESS'', Some (TEMPORAL_ADDRESS cls)),
       (''TEMPORAL_NAMESPACE'', Some (TEMPORAL_NAMESPACE cls)),
       (''TEMPORAL_TASK_QUEUE'', Some (TEMPORAL_TASK_QUEUE cls)),
       (''DATAFORSEO_LOGIN'', DATAFORSEO_LOGIN cls),
       (''DATAFORSEO_PASSWORD'', DATAFORSEO_PASSWORD cls),
       (''SERPER_API_KEY'', SERPER_API_KEY cls) ]"

definition has_ai :: "Config \<Rightarrow> bool" where
  "has_ai cls =
     list_ex truthy [GOOGLE_API_KEY cls, OPENAI_API_KEY cls, ANTHROPIC_API_KEY cls]"

definition AI_MISSING_ITEM :: string where
  "AI_MISSING_ITEM = ''GOOGLE_API_KEY or OPENAI_API_KEY or ANTHROPIC_API_KEY''"

definition validate_required :: "Config \<Rightarrow> string list" where
  "validate_required cls =
     (let missing = map fst (filter (\<lambda>(key, v). \<not> truthy v) (required cls))
      in if \<not> has_ai cls then missing @ [AI_MISSING_ITEM] else missing)"

subsection \<open>\<open>Config.get_ai_model\<close>\<close>

definition get_ai_model :: "Config \<Rightarrow> exn + (string \<times> string)" where
  "get_ai_model cls =
     (if truthy (ANTHROPIC_API_KEY cls) then Inr (''anthropic'', ''claude-3-5-haiku-20241022'')
      else if truthy (GOOGLE_API_KEY cls) then Inr (''google-gla'', ''gemini-1.5-flash'')
      else if truthy (OPENAI_API_KEY cls) then Inr (''openai'', ''gpt-4o-mini'')
      else Inl (ValueError ''No AI API key configured''))"

subsection \<open>\<open>Config.as_dict\<close>\<close>

text \<open>
  Values of the dictionaries the program builds. A float literal is kept as the decimal it
  is written as; the program does no arithmetic on it.
\<close>

datatype pyval = PyStr string | PyBool bool | PyInt int | PyFloat rat

definition as_dict :: "Config \<Rightarrow> (string \<times> pyval) list" where
  "as_dict cls =
     [ (''temporal_address'', PyStr (TEMPORAL_ADDRESS cls)),
       (''temporal_namespace'', PyStr (TEMPORAL_NAMESPACE cls)),
       (''task_queue'', PyStr (TEMPORAL_TASK_QUEUE cls)),
       (''environment'', PyStr (ENVIRONMENT cls)),
       (''default_app'', PyStr (DEFAULT_APP cls)),
       (''has_database'', PyBool (truthy_str (DATABASE_URL cls))),
       (''has_dataforseo'',
          PyBool (truthy (DATAFORSEO_LOGIN cls) \<and> truthy (DATAFORSEO_PASSWORD cls))),
       (''has_serper'', PyBool (truthy (SERPER_API_KEY cls))),
       (''has_zep'', PyBool (truthy (ZEP_API_KEY cls))),
       (''has_ai'',
          PyBool (truthy (GOOGLE_API_KEY cls) \<or> truthy (OPENAI_API_KEY cls)
                  \<or> truthy (ANTHROPIC_API_KEY cls))) ]"


section \<open>The orchestration client\<close>

datatype ScheduleOverlapPolicy =
    UNSPECIFIED | SKIP | BUFFER_ONE | BUFFER_ALL | CANCEL_OTHER | TERMINATE_OTHER | ALLOW_ALL

record ScheduleSpec =
  cron :: string

record StartWorkflowAction =
  workflow_type :: string
  input :: "(string \<times> pyval) list list"
  task_queue :: string
  workflow_id_reuse_policy :: int

record ScheduleDescription =
  schedule :: ScheduleSpec
  action :: StartWorkflowAction

text \<open>Every operation the two processes invoke on the client, with its arguments.\<close>

datatype call =
    Connect string string "string option" bool
  | GetSchedule string
  | CreateSchedule string ScheduleDescription ScheduleOverlapPolicy
  | Close
  | Run string "string list" "string list"

text \<open>
  Modelled from the spec: the Orchestration Client of section 4.4 is the external library
  \<open>temporalio\<close>, which is not part of the sources. The backend holds the registered
  Schedules (a list, so that duplicates would be visible), a script of the failures the
  environment injects into the coming client operations (one entry per operation,
  \<open>None\<close> for an operation that meets no failure; an exhausted script injects none), and
  the log of the operations invoked so far.
\<close>

record backend =
  schedules :: "(string \<times> ScheduleDescription \<times> ScheduleOverlapPolicy) list"
  faults :: "exn option list"
  calls :: "call list"

definition record_call :: "call \<Rightarrow> backend \<Rightarrow> backend" where
  "record_call c b = b\<lparr>calls := calls b @ [c]\<rparr>"

definition next_fault :: "backend \<Rightarrow> exn option \<times> backend" where
  "next_fault b = (case faults b of [] \<Rightarrow> (None, b) | f # fs \<Rightarrow> (f, b\<lparr>faults := fs\<rparr>))"

text \<open>
  Modelled from the spec: \<open>connect(address, namespace, credentials?)\<close> yields a Session or
  fails.
\<close>

definition Client_connect ::
  "string \<Rightarrow> string \<Rightarrow> string option \<Rightarrow> bool \<Rightarrow> backend \<Rightarrow> (exn + unit) \<times> backend" where
  "Client_connect address namespace api_key tls b =
     (case next_fault (record_call (Connect address namespace api_key tls) b) of
        (Some e, b') \<Rightarrow> (Inl e, b')
      | (None, b') \<Rightarrow> (Inr (), b'))"

text \<open>
  Modelled from the spec: \<open>get_schedule(key)\<close> yields the Schedule, or fails with
  NotFoundError when there is none, or fails with the injected failure.
\<close>

definition client_get_schedule ::
  "string \<Rightarrow> backend
     \<Rightarrow> (exn + ScheduleDescription \<times> ScheduleOverlapPolicy) \<times> backend" where
  "client_get_schedule key b =
     (case next_fault (record_call (GetSchedule key) b) of
        (Some e, b') \<Rightarrow> (Inl e, b')
      | (None, b') \<Rightarrow>
          (case map_of (schedules b') key of
             None \<Rightarrow> (Inl NotFoundError, b')
           | Some s \<Rightarrow> (Inr s, b')))"

text \<open>
  Modelled from the spec: \<open>create_schedule(key, Schedule)\<close> is a conditional create; it
  fails with AlreadyExistsError when the key is taken, or with the injected failure, and a
  failed creation leaves the registered Schedules as they were.
\<close>

definition client_create_schedule ::
  "string \<Rightarrow> ScheduleDescription \<Rightarrow> ScheduleOverlapPolicy \<Rightarrow> backend
     \<Rightarrow> (exn + unit) \<times> backend" where
  "client_create_schedule key d overlap_policy b =
     (case next_fault (record_call (CreateSchedule key d overlap_policy) b) of
        (Some e, b') \<Rightarrow> (Inl e, b')
      | (None, b') \<Rightarrow>
          (if key \<in> fst ` set (schedules b') then (Inl AlreadyExistsError, b')
           else (Inr (), b'\<lparr>schedules := schedules b' @ [(key, d, overlap_policy)]\<rparr>)))"

text \<open>Modelled from the spec: \<open>close()\<close> releases the Session.\<close>

definition client_close :: "backend \<Rightarrow> backend" where
  "client_close b = record_call Close b"

text \<open>
  Modelled from the spec: \<open>bind_queue\<close> (the \<open>Worker\<close> constructor) pairs a queue name
  with the workflow definitions and activity handlers, and fails fast when the queue name
  or the handler set is empty.
\<close>

record QueueBinding =
  queue_name :: string
  workflows :: "string list"
  activities :: "string list"

definition Worker :: "string \<Rightarrow> string list \<Rightarrow> string list \<Rightarrow> exn + QueueBinding" where
  "Worker q wfs acts =
     (if q = [] then Inl (ValueError ''empty task queue'')
      else if wfs @ acts = [] then Inl (ValueError ''no handlers'')
      else Inr \<lparr>queue_name = q, workflows = wfs, activities = acts\<rparr>)"

text \<open>
  Modelled from the spec: \<open>QueueBinding.run()\<close> blocks until cancelled. It leaves the
  dispatch loop only with the failure the environment injects (an interrupt or a crash);
  with none it never returns, which is the result \<open>None\<close>.
\<close>

definition worker_run :: "QueueBinding \<Rightarrow> backend \<Rightarrow> (exn + unit) option \<times> backend" where
  "worker_run w b =
     (case next_fault (record_call (Run (queue_name w) (workflows w) (activities w)) b) of
        (Some e, b') \<Rightarrow> (Some (Inl e), b')
      | (None, b') \<Rightarrow> (None, b'))"

section \<open>Schedule registrar (scheduler.py)\<close>

text \<open>
  \<open>create_schedule\<close> returns \<open>None\<close> on both of its normal paths; the outcome records
  which of the two messages it printed.
\<close>

datatype outcome = AlreadyExists | Created

definition schedule_id :: "string \<Rightarrow> string" where
  "schedule_id app = ''news-monitor-'' @ app"

definition create_schedule ::
  "Config \<Rightarrow> string \<Rightarrow> string \<Rightarrow> backend \<Rightarrow> (exn + outcome) \<times> backend" where
  "create_schedule config app app_display_name client =
     (case client_get_schedule (schedule_id app) client of
        (Inr found, c1) \<Rightarrow> (Inr AlreadyExists, c1)
      | (Inl e, c1) \<Rightarrow>
          if \<not> is_Exception e then (Inl e, c1)
          else
            (case client_create_schedule (schedule_id app)
                    \<lparr> schedule = \<lparr> cron = ''0 9 * * *'' \<rparr>,
                      action = \<lparr> workflow_type = ''NewsCreationWorkflow'',
                                 input = [ [ (''app'', PyStr app),
                                            (''min_relevance_score'', PyFloat 0.7),
                                            (''auto_create_articles'', PyBool True),
                                            (''max_articles_to_create'', PyInt 3) ] ],
                                 task_queue = TEMPORAL_TASK_QUEUE config,
                                 workflow_id_reuse_policy = 1 \<rparr> \<rparr>
                    SKIP c1 of
               (Inr u, c2) \<Rightarrow> (Inr Created, c2)
             | (Inl e', c2) \<Rightarrow> (Inl e', c2)))"

text \<open>
  The connection block, which the two \<open>main\<close> functions share word for word: TLS with the
  API key when one is set, the plain local connection otherwise; any \<open>Exception\<close> is
  reported and turned into \<open>sys.exit(1)\<close>.
\<close>

definition connect_client :: "Config \<Rightarrow> backend \<Rightarrow> (exn + unit) \<times> backend" where
  "connect_client config b =
     (case (if truthy (TEMPORAL_API_KEY config)
            then Client_connect (TEMPORAL_ADDRESS config) (TEMPORAL_NAMESPACE config)
                   (TEMPORAL_API_KEY config) True b
            else Client_connect (TEMPORAL_ADDRESS config) (TEMPORAL_NAMESPACE config)
                   None False b) of
        (Inl e, b') \<Rightarrow> (if is_Exception e then (Inl (SystemExit 1), b') else (Inl e, b'))
      | (Inr u, b') \<Rightarrow> (Inr (), b'))"

definition apps :: "(string \<times> string) list" where
  "apps = [ (''placement'', ''Placement Agent Directory''),
            (''relocation'', ''Global Relocation Directory'') ]"

text \<open>The \<open>for\<close> loop of \<open>main\<close>: the first registration that raises ends it.\<close>

fun create_schedules ::
  "Config \<Rightarrow> (string \<times> string) list \<Rightarrow> backend \<Rightarrow> (exn + unit) \<times> backend" where
  "create_schedules config [] client = (Inr (), client)"
| "create_schedules config ((app_name, app_display_name) # rest) client =
     (case create_schedule config app_name app_display_name client of
        (Inl e, c1) \<Rightarrow> (Inl e, c1)
      | (Inr r, c1) \<Rightarrow> create_schedules config rest c1)"

definition scheduler_main :: "Config \<Rightarrow> backend \<Rightarrow> (exn + unit) \<times> backend" where
  "scheduler_main config b =
     (if validate_required config \<noteq> [] then (Inl (SystemExit 1), b)
      else
        (case connect_client config b of
           (Inl e, b1) \<Rightarrow> (Inl e, b1)
         | (Inr u, client) \<Rightarrow>
             (case create_schedules config apps client of
                (Inl e, c1) \<Rightarrow> (Inl e, c1)
              | (Inr u', c1) \<Rightarrow> (Inr (), client_close c1))))"

text \<open>
  The \<open>__main__\<close> block, shared by the two modules: the exit status of the process.
  \<open>SystemExit\<close> is caught by neither clause and carries its own status.
\<close>

fun exit_status :: "exn + unit \<Rightarrow> int" where
  "exit_status (Inr u) = 0"
| "exit_status (Inl KeyboardInterrupt) = 0"
| "exit_status (Inl (SystemExit code)) = code"
| "exit_status (Inl e) = 1"

definition scheduler_process :: "Config \<Rightarrow> backend \<Rightarrow> int \<times> backend" where
  "scheduler_process config b =
     (case scheduler_main config b of (r, b') \<Rightarrow> (exit_status r, b'))"

section \<open>Worker (worker.py)\<close>

text \<open>
  Console output, including the service status that \<open>main\<close> prints from \<open>as_dict\<close>, has
  no effect on the result and is left out.
\<close>

definition worker_main :: "Config \<Rightarrow> backend \<Rightarrow> (exn + unit) option \<times> backend" where
  "worker_main config b =
     (if validate_required config \<noteq> [] then (Some (Inl (SystemExit 1)), b)
      else
        (case connect_client config b of
           (Inl e, b1) \<Rightarrow> (Some (Inl e), b1)
         | (Inr u, client) \<Rightarrow>
             (case Worker (TEMPORAL_TASK_QUEUE config)
                     [''NewsCreationWorkflow'']
                     [ ''dataforseo_news_search'', ''serper_news_search'',
                       ''assess_news_batch'', ''get_recent_articles_from_neon'',
                       ''query_zep_for_context'', ''build_intelligent_video_prompt'' ] of
                Inl e \<Rightarrow> (Some (Inl e), client)
              | Inr worker \<Rightarrow> worker_run worker client)))"

text \<open>The exit status of the worker process; \<open>None\<close> while it stays in the dispatch loop.\<close>

definition worker_process :: "Config \<Rightarrow> backend \<Rightarrow> int option \<times> backend" where
  "worker_process config b =
     (case worker_main config b of (r, b') \<Rightarrow> (map_option exit_status r, b'))"

section \<open>Notions used to state the properties\<close>

text \<open>The three orchestration settings that \<open>Config\<close> reads with a built-in default.\<close>

definition defaulted :: "string list" where
  "defaulted = [''TEMPORAL_ADDRESS'', ''TEMPORAL_NAMESPACE'', ''TEMPORAL_TASK_QUEUE'']"

text \<open>
  A required setting is unset in an environment when its variable is set to the empty
  string, or is absent and has no built-in default. No AI credential is set when each of
  the three keys is absent or empty.
\<close>

definition unset :: "environ \<Rightarrow> string \<Rightarrow> bool" where
  "unset env k = (case env k of None \<Rightarrow> k \<notin> set defaulted | Some v \<Rightarrow> v = [])"

definition no_ai_credential :: "environ \<Rightarrow> bool" where
  "no_ai_credential env =
     list_all (\<lambda>k. env k = None \<or> env k = Some [])
       [''GOOGLE_API_KEY'', ''OPENAI_API_KEY'', ''ANTHROPIC_API_KEY'']"

text \<open>
  The settings \<open>as_dict\<close> may show, and for each credential whether it is set to a
  non-empty value.
\<close>

definition non_secret :: "Config \<Rightarrow> string list" where
  "non_secret cls = [TEMPORAL_ADDRESS cls, TEMPORAL_NAMESPACE cls, TEMPORAL_TASK_QUEUE cls,
                     ENVIRONMENT cls, DEFAULT_APP cls]"

definition credential_presence :: "Config \<Rightarrow> bool list" where
  "credential_presence cls =
     [truthy_str (DATABASE_URL cls), truthy (DATAFORSEO_LOGIN cls),
      truthy (DATAFORSEO_PASSWORD cls), truthy (SERPER_API_KEY cls), truthy (ZEP_API_KEY cls),
      truthy (GOOGLE_API_KEY cls), truthy (OPENAI_API_KEY cls), truthy (ANTHROPIC_API_KEY cls)]"

text \<open>
  The Schedule that the specification asks registration to construct for an application
  \<open>a\<close> on the queue \<open>q\<close>: daily cron trigger at 09:00 UTC, the news workflow started with
  one structured input of fixed defaults, and identifier reuse allowed (value \<open>1\<close> of the
  reuse-policy enumeration, as the source writes it).
\<close>

definition spec_schedule :: "string \<Rightarrow> string \<Rightarrow> ScheduleDescription" where
  "spec_schedule q a =
     \<lparr> schedule = \<lparr> cron = ''0 9 * * *'' \<rparr>,
       action = \<lparr> workflow_type = ''NewsCreationWorkflow'',
                  input = [ [ (''app'', PyStr a),
                             (''min_relevance_score'', PyFloat 0.7),
                             (''auto_create_articles'', PyBool True),
                             (''max_articles_to_create'', PyInt 3) ] ],
                  task_queue = q,
                  workflow_id_reuse_policy = 1 \<rparr> \<rparr>"

text \<open>The number of registered Schedules under a key.\<close>

definition schedule_count :: "string \<Rightarrow> backend \<Rightarrow> nat" where
  "schedule_count key b = length (filter (\<lambda>(k, s). k = key) (schedules b))"

text \<open>
  A caller that invokes \<open>create_schedule\<close> for the same application \<open>n\<close> times in
  sequence, whatever each call returns or raises.
\<close>

fun register_times :: "nat \<Rightarrow> Config \<Rightarrow> string \<Rightarrow> string \<Rightarrow> backend \<Rightarrow> backend" where
  "register_times 0 config app app_display_name b = b"
| "register_times (Suc n) config app app_display_name b =
     register_times n config app app_display_name
       (snd (create_schedule config app app_display_name b))"

text \<open>The client operations invoked between two states of the backend.\<close>

definition new_calls :: "backend \<Rightarrow> backend \<Rightarrow> call list" where
  "new_calls b b' = drop (length (calls b)) (calls b')"

subsection \<open>Concrete environments\<close>

definition env_no_serper :: environ where
  "env_no_serper = map_of
     [ (''DATAFORSEO_LOGIN'', ''login''), (''DATAFORSEO_PASSWORD'', ''pw''),
       (''ANTHROPIC_API_KEY'', ''sk-a''), (''OPENAI_API_KEY'', ''sk-o'') ]"

definition env_no_address :: environ where
  "env_no_address = map_of
     [ (''TEMPORAL_NAMESPACE'', ''default''), (''TEMPORAL_TASK_QUEUE'', ''quest-content-queue''),
       (''DATAFORSEO_LOGIN'', ''login''), (''DATAFORSEO_PASSWORD'', ''pw''),
       (''SERPER_API_KEY'', ''serper''), (''ANTHROPIC_API_KEY'', ''sk-a'') ]"

definition env_no_ai :: environ where
  "env_no_ai = map_of
     [ (''DATAFORSEO_LOGIN'', ''login''), (''DATAFORSEO_PASSWORD'', ''pw''),
       (''SERPER_API_KEY'', ''serper'') ]"

definition env_empty_queue :: environ where
  "env_empty_queue = map_of [ (''TEMPORAL_TASK_QUEUE'', []) ]"

definition env_secrets_a :: environ where
  "env_secrets_a = map_of
     [ (''DATABASE_URL'', ''postgres://u:alpha@h/db''), (''SERPER_API_KEY'', ''serper-alpha''),
       (''ANTHROPIC_API_KEY'', ''sk-alpha''), (''ZEP_API_KEY'', []) ]"

definition env_secrets_b :: environ where
  "env_secrets_b = map_of
     [ (''DATABASE_URL'', ''postgres://u:beta@h/db''), (''SERPER_API_KEY'', ''serper-beta''),
       (''ANTHROPIC_API_KEY'', ''sk-beta'') ]"

definition env_valid :: environ where
  "env_valid = map_of
     [ (''DATAFORSEO_LOGIN'', ''login''), (''DATAFORSEO_PASSWORD'', ''pw''),
       (''SERPER_API_KEY'', ''serper''), (''ANTHROPIC_API_KEY'', ''sk-a'') ]"

text \<open>A backend with no Schedule and no operation invoked yet, under a failure script.\<close>

definition fresh_backend :: "exn option list \<Rightarrow> backend" where
  "fresh_backend fs = \<lparr> schedules = [], faults = fs, calls = [] \<rparr>"

text \<open>A backend on which the Schedule of the application \<open>placement\<close> is registered.\<close>

definition placement_backend :: backend where
  "placement_backend =
     \<lparr> schedules = [(''news-monitor-placement'',
                      spec_schedule ''quest-content-queue'' ''placement'', SKIP)],
       faults = [], calls = [] \<rparr>"

section \<open>Properties of the configuration\<close>

lemma required_keys: "map fst (required cls) =
  [''TEMPORAL_ADDRESS'', ''TEMPORAL_NAMESPACE'', ''TEMPORAL_TASK_QUEUE'',
   ''DATAFORSEO_LOGIN'', ''DATAFORSEO_PASSWORD'', ''SERPER_API_KEY'']"
  by (simp add: required_def)

lemma truthy_iff: "truthy x \<longleftrightarrow> x \<noteq> None \<and> x \<noteq> Some []"
  by (cases x) (simp_all add: truthy_str_def)

lemma filter_map_fst:
  "\<forall>(k, v) \<in> set xs. P v \<longleftrightarrow> Q k \<Longrightarrow>
   map fst (filter (\<lambda>(k, v). P v) xs) = filter Q (map fst xs)"
  by (induction xs) auto

lemma filter_unique:
  "distinct xs \<Longrightarrow> k \<in> set xs \<Longrightarrow> Q k \<Longrightarrow> \<forall>k' \<in> set xs. k' \<noteq> k \<longrightarrow> \<not> Q k' \<Longrightarrow>
   filter Q xs = [k]"
proof (induction xs)
  case Nil
  then show ?case by simp
next
  case (Cons x xs)
  show ?case
  proof (cases "x = k")
    case True
    with Cons.prems have "\<forall>k' \<in> set xs. \<not> Q k'" by auto
    then have "filter Q xs = []" by (simp add: filter_empty_conv)
    with True Cons.prems show ?thesis by simp
  next
    case False
    with Cons show ?thesis by auto
  qed
qed

lemma required_unset:
  "\<forall>(k, v) \<in> set (required (load_config env)). \<not> truthy v \<longleftrightarrow> unset env k"
  by (simp add: required_def load_config_def getenv_def getenv_default_def unset_def
      defaulted_def truthy_iff split: option.splits)

lemma has_ai_env: "has_ai (load_config env) \<longleftrightarrow> \<not> no_ai_credential env"
  by (simp add: has_ai_def load_config_def getenv_def no_ai_credential_def truthy_iff)

lemma validate_required_env_eq:
  "validate_required (load_config env) =
     filter (unset env)
       [''TEMPORAL_ADDRESS'', ''TEMPORAL_NAMESPACE'', ''TEMPORAL_TASK_QUEUE'',
        ''DATAFORSEO_LOGIN'', ''DATAFORSEO_PASSWORD'', ''SERPER_API_KEY'']
     @ (if no_ai_credential env
        then [''GOOGLE_API_KEY or OPENAI_API_KEY or ANTHROPIC_API_KEY''] else [])"
proof -
  have "map fst (filter (\<lambda>(k, v). \<not> truthy v) (required (load_config env)))
      = filter (unset env) (map fst (required (load_config env)))"
    using required_unset [of env] by (rule filter_map_fst)
  then show ?thesis
    by (simp add: validate_required_def Let_def has_ai_env required_keys AI_MISSING_ITEM_def)
qed

lemma validate_required_mem:
  "k \<noteq> AI_MISSING_ITEM \<Longrightarrow>
   k \<in> set (validate_required cls) \<longleftrightarrow> (\<exists>v. (k, v) \<in> set (required cls) \<and> \<not> truthy v)"
  by (force simp: validate_required_def Let_def)

text \<open>
  C4, as stated, fails: an environment in which the backend address alone is missing,
  every other required setting and an AI credential being set, is reported as having
  nothing missing, because the address takes its built-in default.
\<close>

theorem absent_address_not_reported:
  "env_no_address ''TEMPORAL_ADDRESS'' = None
   \<and> env_no_address ''TEMPORAL_NAMESPACE'' = Some ''default''
   \<and> env_no_address ''TEMPORAL_TASK_QUEUE'' = Some ''quest-content-queue''
   \<and> env_no_address ''DATAFORSEO_LOGIN'' = Some ''login''
   \<and> env_no_address ''DATAFORSEO_PASSWORD'' = Some ''pw''
   \<and> env_no_address ''SERPER_API_KEY'' = Some ''serper''
   \<and> env_no_address ''ANTHROPIC_API_KEY'' = Some ''sk-a''
   \<and> validate_required (load_config env_no_address) = []"
  by (simp add: validate_required_env_eq unset_def defaulted_def no_ai_credential_def
      env_no_address_def)

text \<open>
  C4, amended. \<open>validate_required\<close> returns the names of the required settings that are
  unset once the built-in defaults are applied: \<open>DATAFORSEO_LOGIN\<close>,
  \<open>DATAFORSEO_PASSWORD\<close> or \<open>SERPER_API_KEY\<close> when absent or empty, \<open>TEMPORAL_ADDRESS\<close>,
  \<open>TEMPORAL_NAMESPACE\<close> or \<open>TEMPORAL_TASK_QUEUE\<close> when set to the empty string, in this
  order, followed by the combined AI item when none of the three AI keys is set. When
  exactly one of the six is unset and an AI key is set the result is that one name; with
  no AI key the combined item occurs exactly once; the result is empty exactly when none
  of the six is unset and an AI key is set.
\<close>

theorem validate_required_env:
  "validate_required (load_config env) =
     filter (unset env)
       [''TEMPORAL_ADDRESS'', ''TEMPORAL_NAMESPACE'', ''TEMPORAL_TASK_QUEUE'',
        ''DATAFORSEO_LOGIN'', ''DATAFORSEO_PASSWORD'', ''SERPER_API_KEY'']
     @ (if no_ai_credential env
        then [''GOOGLE_API_KEY or OPENAI_API_KEY or ANTHROPIC_API_KEY''] else [])
   \<and> (k \<in> set [''TEMPORAL_ADDRESS'', ''TEMPORAL_NAMESPACE'', ''TEMPORAL_TASK_QUEUE'',
                ''DATAFORSEO_LOGIN'', ''DATAFORSEO_PASSWORD'', ''SERPER_API_KEY'']
        \<and> unset env k
        \<and> (\<forall>k' \<in> set [''TEMPORAL_ADDRESS'', ''TEMPORAL_NAMESPACE'', ''TEMPORAL_TASK_QUEUE'',
                        ''DATAFORSEO_LOGIN'', ''DATAFORSEO_PASSWORD'', ''SERPER_API_KEY''].
              k' \<noteq> k \<longrightarrow> \<not> unset env k')
        \<and> \<not> no_ai_credential env
      \<longrightarrow> validate_required (load_config env) = [k])
   \<and> (no_ai_credential env
      \<longrightarrow> count_list (validate_required (load_config env))
            ''GOOGLE_API_KEY or OPENAI_API_KEY or ANTHROPIC_API_KEY'' = 1)
   \<and> (validate_required (load_config env) = [] \<longleftrightarrow>
        (\<forall>k' \<in> set [''TEMPORAL_ADDRESS'', ''TEMPORAL_NAMESPACE'', ''TEMPORAL_TASK_QUEUE'',
                      ''DATAFORSEO_LOGIN'', ''DATAFORSEO_PASSWORD'', ''SERPER_API_KEY''].
            \<not> unset env k')
        \<and> \<not> no_ai_credential env)
   \<and> (\<forall>k' \<in> set [''TEMPORAL_ADDRESS'', ''TEMPORAL_NAMESPACE'', ''TEMPORAL_TASK_QUEUE''].
         unset env k' \<longleftrightarrow> env k' = Some [])
   \<and> (\<forall>k' \<in> set [''DATAFORSEO_LOGIN'', ''DATAFORSEO_PASSWORD'', ''SERPER_API_KEY''].
         unset env k' \<longleftrightarrow> env k' = None \<or> env k' = Some [])
   \<and> (no_ai_credential env \<longleftrightarrow>
        (env ''GOOGLE_API_KEY'' = None \<or> env ''GOOGLE_API_KEY'' = Some [])
        \<and> (env ''OPENAI_API_KEY'' = None \<or> env ''OPENAI_API_KEY'' = Some [])
        \<and> (env ''ANTHROPIC_API_KEY'' = None \<or> env ''ANTHROPIC_API_KEY'' = Some []))"
proof -
  let ?names = "[''TEMPORAL_ADDRESS'', ''TEMPORAL_NAMESPACE'', ''TEMPORAL_TASK_QUEUE'',
                 ''DATAFORSEO_LOGIN'', ''DATAFORSEO_PASSWORD'', ''SERPER_API_KEY'']"
  let ?ai = "''GOOGLE_API_KEY or OPENAI_API_KEY or ANTHROPIC_API_KEY''"
  note eq = validate_required_env_eq [of env]
  have d: "distinct ?names" by simp
  have ai: "?ai \<notin> set (filter (unset env) ?names)" by simp
  have 2: "k \<in> set ?names \<and> unset env k
        \<and> (\<forall>k' \<in> set ?names. k' \<noteq> k \<longrightarrow> \<not> unset env k') \<and> \<not> no_ai_credential env
      \<longrightarrow> validate_required (load_config env) = [k]"
  proof
    assume a: "k \<in> set ?names \<and> unset env k
        \<and> (\<forall>k' \<in> set ?names. k' \<noteq> k \<longrightarrow> \<not> unset env k') \<and> \<not> no_ai_credential env"
    then have "filter (unset env) ?names = [k]"
      using filter_unique [OF d, of k "unset env"] by blast
    with a eq show "validate_required (load_config env) = [k]" by simp
  qed
  have 3: "no_ai_credential env
      \<longrightarrow> count_list (validate_required (load_config env)) ?ai = 1"
  proof
    assume n: "no_ai_credential env"
    have "count_list (filter (unset env) ?names) ?ai = 0"
      using ai by (simp only: count_list_0_iff not_False_eq_True)
    with n eq show "count_list (validate_required (load_config env)) ?ai = 1" by simp
  qed
  have 4: "validate_required (load_config env) = [] \<longleftrightarrow>
        (\<forall>k' \<in> set ?names. \<not> unset env k') \<and> \<not> no_ai_credential env"
  proof -
    have "filter (unset env) ?names = [] \<longleftrightarrow> (\<forall>k' \<in> set ?names. \<not> unset env k')"
      by (simp only: filter_empty_conv)
    with eq show ?thesis by auto
  qed
  have 5: "\<forall>k' \<in> set [''TEMPORAL_ADDRESS'', ''TEMPORAL_NAMESPACE'', ''TEMPORAL_TASK_QUEUE''].
         unset env k' \<longleftrightarrow> env k' = Some []"
    by (simp add: unset_def defaulted_def split: option.splits)
  have 6: "\<forall>k' \<in> set [''DATAFORSEO_LOGIN'', ''DATAFORSEO_PASSWORD'', ''SERPER_API_KEY''].
         unset env k' \<longleftrightarrow> env k' = None \<or> env k' = Some []"
    by (simp add: unset_def defaulted_def split: option.splits)
  have 7: "no_ai_credential env \<longleftrightarrow>
        (env ''GOOGLE_API_KEY'' = None \<or> env ''GOOGLE_API_KEY'' = Some [])
        \<and> (env ''OPENAI_API_KEY'' = None \<or> env ''OPENAI_API_KEY'' = Some [])
        \<and> (env ''ANTHROPIC_API_KEY'' = None \<or> env ''ANTHROPIC_API_KEY'' = Some [])"
    by (simp add: no_ai_credential_def)
  from eq 2 3 4 5 6 7 show ?thesis by blast
qed

theorem validate_required_env_witness:
  "''SERPER_API_KEY'' \<in> set [''TEMPORAL_ADDRESS'', ''TEMPORAL_NAMESPACE'', ''TEMPORAL_TASK_QUEUE'',
                ''DATAFORSEO_LOGIN'', ''DATAFORSEO_PASSWORD'', ''SERPER_API_KEY'']
   \<and> unset env_no_serper ''SERPER_API_KEY''
   \<and> \<not> no_ai_credential env_no_serper
   \<and> validate_required (load_config env_no_serper) = [''SERPER_API_KEY'']
   \<and> no_ai_credential env_no_ai
   \<and> count_list (validate_required (load_config env_no_ai))
        ''GOOGLE_API_KEY or OPENAI_API_KEY or ANTHROPIC_API_KEY'' = 1"
proof -
  have u: "unset env_no_serper ''SERPER_API_KEY''"
    by (simp add: unset_def defaulted_def env_no_serper_def)
  have o: "\<forall>k' \<in> set [''TEMPORAL_ADDRESS'', ''TEMPORAL_NAMESPACE'', ''TEMPORAL_TASK_QUEUE'',
                        ''DATAFORSEO_LOGIN'', ''DATAFORSEO_PASSWORD'', ''SERPER_API_KEY''].
              k' \<noteq> ''SERPER_API_KEY'' \<longrightarrow> \<not> unset env_no_serper k'"
    by (simp add: unset_def defaulted_def env_no_serper_def)
  have m: "''SERPER_API_KEY'' \<in> set [''TEMPORAL_ADDRESS'', ''TEMPORAL_NAMESPACE'',
                ''TEMPORAL_TASK_QUEUE'', ''DATAFORSEO_LOGIN'', ''DATAFORSEO_PASSWORD'',
                ''SERPER_API_KEY'']"
    by simp
  have a: "\<not> no_ai_credential env_no_serper"
    by (simp add: no_ai_credential_def env_no_serper_def)
  have n: "no_ai_credential env_no_ai"
    by (simp add: no_ai_credential_def env_no_ai_def)
  have 1: "validate_required (load_config env_no_serper) = [''SERPER_API_KEY'']"
    using validate_required_env [of env_no_serper "''SERPER_API_KEY''"] m u o a by blast
  have 2: "count_list (validate_required (load_config env_no_ai))
        ''GOOGLE_API_KEY or OPENAI_API_KEY or ANTHROPIC_API_KEY'' = 1"
    using validate_required_env [of env_no_ai "''SERPER_API_KEY''"] n by blast
  from m u a 1 n 2 show ?thesis by blast
qed

text \<open>
  C5. \<open>get_ai_model\<close> is a function of the configuration alone and follows the fixed
  priority Anthropic, then Google, then OpenAI (providers A, B, C of the specification):
  with the first and the third credential but not the second it returns the first
  provider; with none it fails with the configuration error; it evaluates once.
\<close>

theorem get_ai_model_priority:
  "(truthy (ANTHROPIC_API_KEY cls) \<and> truthy (OPENAI_API_KEY cls) \<and> \<not> truthy (GOOGLE_API_KEY cls)
      \<longrightarrow> get_ai_model cls = Inr (''anthropic'', ''claude-3-5-haiku-20241022''))
   \<and> (\<not> truthy (ANTHROPIC_API_KEY cls) \<and> \<not> truthy (GOOGLE_API_KEY cls)
        \<and> \<not> truthy (OPENAI_API_KEY cls)
      \<longrightarrow> get_ai_model cls = Inl (ValueError ''No AI API key configured''))
   \<and> (truthy (ANTHROPIC_API_KEY cls)
      \<longrightarrow> get_ai_model cls = Inr (''anthropic'', ''claude-3-5-haiku-20241022''))
   \<and> (\<not> truthy (ANTHROPIC_API_KEY cls) \<and> truthy (GOOGLE_API_KEY cls)
      \<longrightarrow> get_ai_model cls = Inr (''google-gla'', ''gemini-1.5-flash''))
   \<and> (\<not> truthy (ANTHROPIC_API_KEY cls) \<and> \<not> truthy (GOOGLE_API_KEY cls)
        \<and> truthy (OPENAI_API_KEY cls)
      \<longrightarrow> get_ai_model cls = Inr (''openai'', ''gpt-4o-mini''))"
  by (simp add: get_ai_model_def)

theorem get_ai_model_priority_witness:
  "truthy (ANTHROPIC_API_KEY (load_config env_no_serper))
   \<and> truthy (OPENAI_API_KEY (load_config env_no_serper))
   \<and> \<not> truthy (GOOGLE_API_KEY (load_config env_no_serper))
   \<and> get_ai_model (load_config env_no_serper) = Inr (''anthropic'', ''claude-3-5-haiku-20241022'')
   \<and> get_ai_model (load_config env_no_ai) = Inl (ValueError ''No AI API key configured'')"
  using get_ai_model_priority [of "load_config env_no_serper"]
        get_ai_model_priority [of "load_config env_no_ai"]
  by (simp add: load_config_def env_no_serper_def env_no_ai_def getenv_def getenv_default_def
        truthy_str_def)

text \<open>
  C9. The backend address, the namespace and the queue name have non-empty defaults
  substituted when the configuration is loaded: a setting whose variable is absent from the
  environment is never reported missing, and it is reported missing exactly when the
  variable is set to the empty string.
\<close>

theorem defaults_never_missing:
  "\<forall>k \<in> set defaulted.
     (env k = None \<longrightarrow> k \<notin> set (validate_required (load_config env)))
     \<and> (k \<in> set (validate_required (load_config env)) \<longleftrightarrow> env k = Some [])"
  by (auto simp: defaulted_def validate_required_mem AI_MISSING_ITEM_def required_def
        load_config_def getenv_default_def truthy_str_def split: option.splits)

theorem defaults_never_missing_witness:
  "''TEMPORAL_ADDRESS'' \<in> set defaulted \<and> ''TEMPORAL_TASK_QUEUE'' \<in> set defaulted
   \<and> env_empty_queue ''TEMPORAL_ADDRESS'' = None
   \<and> ''TEMPORAL_ADDRESS'' \<notin> set (validate_required (load_config env_empty_queue))
   \<and> env_empty_queue ''TEMPORAL_TASK_QUEUE'' = Some []
   \<and> ''TEMPORAL_TASK_QUEUE'' \<in> set (validate_required (load_config env_empty_queue))"
  using defaults_never_missing [of env_empty_queue]
  by (simp add: defaulted_def env_empty_queue_def)

text \<open>
  C10. \<open>as_dict\<close> depends on the credentials only through their presence: two
  configurations with the same non-secret settings and the same credentials set to
  non-empty values export the same dictionary, and every string in the export is one of
  the five non-secret settings (all other entries are booleans).
\<close>

theorem as_dict_presence_only:
  "(non_secret c1 = non_secret c2 \<and> credential_presence c1 = credential_presence c2
      \<longrightarrow> as_dict c1 = as_dict c2)
   \<and> (\<forall>(k, v) \<in> set (as_dict c1).
         case v of PyStr s \<Rightarrow> s \<in> set (non_secret c1) | PyBool b \<Rightarrow> True | _ \<Rightarrow> False)"
  by (simp add: non_secret_def credential_presence_def as_dict_def)

theorem as_dict_presence_only_witness:
  "non_secret (load_config env_secrets_a) = non_secret (load_config env_secrets_b)
   \<and> credential_presence (load_config env_secrets_a)
       = credential_presence (load_config env_secrets_b)
   \<and> load_config env_secrets_a \<noteq> load_config env_secrets_b
   \<and> as_dict (load_config env_secrets_a) = as_dict (load_config env_secrets_b)"
  using as_dict_presence_only [of "load_config env_secrets_a" "load_config env_secrets_b"]
  by (simp add: non_secret_def credential_presence_def load_config_def env_secrets_a_def
        env_secrets_b_def getenv_def getenv_default_def truthy_str_def)

section \<open>Properties of the registrar and the worker\<close>

subsection \<open>Effects of the client operations\<close>

lemma next_fault_record_call:
  "next_fault (record_call c b) =
     (case faults b of [] \<Rightarrow> None | f # fs \<Rightarrow> f,
      b\<lparr>calls := calls b @ [c], faults := tl (faults b)\<rparr>)"
  by (cases "faults b") (simp_all add: next_fault_def record_call_def)

lemma get_schedule_effect:
  assumes "client_get_schedule key b = (r, b')"
  shows "b' = b\<lparr>calls := calls b @ [GetSchedule key], faults := tl (faults b)\<rparr>"
  using assms
  by (auto simp: client_get_schedule_def next_fault_record_call split: option.splits list.splits)

lemma get_schedule_result:
  "fst (client_get_schedule key b) =
     (case (case faults b of [] \<Rightarrow> None | f # fs \<Rightarrow> f) of
        Some e \<Rightarrow> Inl e
      | None \<Rightarrow> (case map_of (schedules b) key of None \<Rightarrow> Inl NotFoundError | Some s \<Rightarrow> Inr s))"
  by (auto simp: client_get_schedule_def next_fault_record_call split: option.splits list.splits)

lemma create_op_effect:
  assumes "client_create_schedule key d p b = (r, b')"
  shows "calls b' = calls b @ [CreateSchedule key d p]" "faults b' = tl (faults b)"
    "case r of Inl e \<Rightarrow> schedules b' = schedules b
     | Inr u \<Rightarrow> key \<notin> fst ` set (schedules b) \<and> schedules b' = schedules b @ [(key, d, p)]"
  using assms
  by (auto simp: client_create_schedule_def next_fault_record_call
      split: option.splits list.splits if_splits)

lemma create_op_no_fault:
  assumes "faults b = []"
  shows "client_create_schedule key d p b =
     (if key \<in> fst ` set (schedules b)
      then (Inl AlreadyExistsError, b\<lparr>calls := calls b @ [CreateSchedule key d p], faults := []\<rparr>)
      else (Inr (), b\<lparr>calls := calls b @ [CreateSchedule key d p], faults := [],
                      schedules := schedules b @ [(key, d, p)]\<rparr>))"
  using assms
  by (auto simp: client_create_schedule_def next_fault_record_call)

lemma schedule_count_pos: "0 < schedule_count key b \<longleftrightarrow> key \<in> fst ` set (schedules b)"
  by (force simp: schedule_count_def filter_empty_conv)

lemma create_schedule_count_le:
  assumes "schedule_count (schedule_id app) b \<le> 1"
  shows "schedule_count (schedule_id app) (snd (create_schedule config app dn b)) \<le> 1
     \<and> schedule_count (schedule_id app) b
        \<le> schedule_count (schedule_id app) (snd (create_schedule config app dn b))"
proof -
  obtain r b1 where g: "client_get_schedule (schedule_id app) b = (r, b1)"
    by (cases "client_get_schedule (schedule_id app) b")
  have s1: "schedules b1 = schedules b"
    using get_schedule_effect [OF g] by simp
  show ?thesis
  proof (cases r)
    case (Inr s)
    with g s1 assms show ?thesis
      by (simp add: create_schedule_def schedule_count_def)
  next
    case (Inl e)
    show ?thesis
    proof (cases "is_Exception e")
      case False
      with Inl g s1 assms show ?thesis
        by (simp add: create_schedule_def schedule_count_def)
    next
      case True
      let ?d = "\<lparr> schedule = \<lparr> cron = ''0 9 * * *'' \<rparr>,
                      action = \<lparr> workflow_type = ''NewsCreationWorkflow'',
                                 input = [ [ (''app'', PyStr app),
                                            (''min_relevance_score'', PyFloat 0.7),
                                            (''auto_create_articles'', PyBool True),
                                            (''max_articles_to_create'', PyInt 3) ] ],
                                 task_queue = TEMPORAL_TASK_QUEUE config,
                                 workflow_id_reuse_policy = 1 \<rparr> \<rparr>"
      obtain r2 b2 where c: "client_create_schedule (schedule_id app) ?d SKIP b1 = (r2, b2)"
        by (cases "client_create_schedule (schedule_id app) ?d SKIP b1")
      have res: "snd (create_schedule config app dn b) = b2"
        using g Inl True c by (simp add: create_schedule_def split: sum.splits)
      show ?thesis
      proof (cases r2)
        case (Inl e')
        with create_op_effect(3) [OF c] s1 res assms show ?thesis
          by (simp add: schedule_count_def)
      next
        case (Inr u)
        with create_op_effect(3) [OF c] s1
        have "schedule_id app \<notin> fst ` set (schedules b)"
          and "schedules b2 = schedules b @ [(schedule_id app, ?d, SKIP)]" by simp_all
        moreover from this(1) have "schedule_count (schedule_id app) b = 0"
          using schedule_count_pos [of "schedule_id app" b] by simp
        ultimately show ?thesis using res
          by (simp add: schedule_count_def)
      qed
    qed
  qed
qed

lemma create_schedule_faults:
  "length (faults (snd (create_schedule config app dn b))) \<le> length (faults b) - 1"
proof -
  obtain r b1 where g: "client_get_schedule (schedule_id app) b = (r, b1)"
    by (cases "client_get_schedule (schedule_id app) b")
  have f1: "faults b1 = tl (faults b)"
    using get_schedule_effect [OF g] by simp
  show ?thesis
    using g f1
    by (auto simp: create_schedule_def split: sum.splits prod.splits dest!: create_op_effect(2))
qed

lemma create_schedule_no_faults:
  assumes "faults b = []" "schedule_count (schedule_id app) b \<le> 1"
  shows "schedule_count (schedule_id app) (snd (create_schedule config app dn b)) = 1"
proof -
  obtain r b1 where g: "client_get_schedule (schedule_id app) b = (r, b1)"
    by (cases "client_get_schedule (schedule_id app) b")
  have b1: "schedules b1 = schedules b" "faults b1 = []"
    using get_schedule_effect [OF g] assms(1) by simp_all
  have r: "r = (case map_of (schedules b) (schedule_id app) of
                  None \<Rightarrow> Inl NotFoundError | Some s \<Rightarrow> Inr s)"
    using get_schedule_result [of "schedule_id app" b] g assms(1) by simp
  show ?thesis
  proof (cases "map_of (schedules b) (schedule_id app)")
    case None
    then have absent: "schedule_id app \<notin> fst ` set (schedules b)"
      by (simp add: map_of_eq_None_iff)
    then have "schedule_count (schedule_id app) b = 0"
      using schedule_count_pos [of "schedule_id app" b] by simp
    with None r g b1 absent show ?thesis
      by (simp add: create_schedule_def create_op_no_fault schedule_count_def)
  next
    case (Some s)
    then have "schedule_id app \<in> fst ` set (schedules b)"
      by (metis map_of_eq_None_iff option.distinct(1))
    then have "0 < schedule_count (schedule_id app) b"
      by (simp add: schedule_count_pos)
    with assms(2) have one: "schedule_count (schedule_id app) b = 1" by simp
    have "snd (create_schedule config app dn b) = b1"
      using Some r g by (simp add: create_schedule_def)
    moreover have "schedule_count (schedule_id app) b1 = schedule_count (schedule_id app) b"
      using b1(1) by (simp add: schedule_count_def)
    ultimately show ?thesis using one by simp
  qed
qed

lemma register_times_stable:
  "schedule_count (schedule_id app) b = 1 \<Longrightarrow>
   schedule_count (schedule_id app) (register_times n config app dn b) = 1"
proof (induction n arbitrary: b)
  case 0
  then show ?case by simp
next
  case (Suc n)
  have "schedule_count (schedule_id app) (snd (create_schedule config app dn b)) = 1"
    using create_schedule_count_le [of app b config dn] Suc.prems by simp
  then show ?case using Suc.IH by simp
qed

lemma register_times_converges:
  "schedule_count (schedule_id app) b \<le> 1 \<Longrightarrow> length (faults b) < n \<Longrightarrow>
   schedule_count (schedule_id app) (register_times n config app dn b) = 1"
proof (induction n arbitrary: b)
  case 0
  then show ?case by simp
next
  case (Suc n)
  let ?b' = "snd (create_schedule config app dn b)"
  show ?case
  proof (cases "faults b")
    case Nil
    then have "schedule_count (schedule_id app) ?b' = 1"
      using create_schedule_no_faults Suc.prems(1) by simp
    then show ?thesis using register_times_stable by simp
  next
    case (Cons f fs)
    have "length (faults ?b') < n"
      using create_schedule_faults [of config app dn b] Suc.prems(2) Cons by simp
    moreover have "schedule_count (schedule_id app) ?b' \<le> 1"
      using create_schedule_count_le [OF Suc.prems(1)] by simp
    ultimately show ?thesis using Suc.IH by simp
  qed
qed

lemma register_times_idempotent:
  "(schedule_count (schedule_id app) b \<le> 1 \<and> length (faults b) < n
      \<longrightarrow> schedule_count (schedule_id app) (register_times n config app dn b) = 1)
   \<and> (schedule_count (schedule_id app) b \<le> 1
      \<longrightarrow> schedule_count (schedule_id app) (register_times n config app dn b) \<le> 1)
   \<and> (\<forall>found b1. client_get_schedule (schedule_id app) b = (Inr found, b1)
      \<longrightarrow> create_schedule config app dn b = (Inr AlreadyExists, b1)
          \<and> schedules b1 = schedules b
          \<and> calls b1 = calls b @ [GetSchedule (schedule_id app)])"
proof (intro conjI impI allI)
  assume "schedule_count (schedule_id app) b \<le> 1 \<and> length (faults b) < n"
  then show "schedule_count (schedule_id app) (register_times n config app dn b) = 1"
    using register_times_converges by simp
next
  assume "schedule_count (schedule_id app) b \<le> 1"
  then show "schedule_count (schedule_id app) (register_times n config app dn b) \<le> 1"
  proof (induction n arbitrary: b)
    case 0
    then show ?case by simp
  next
    case (Suc n)
    then show ?case using create_schedule_count_le [of app b config dn] by simp
  qed
next
  fix found b1
  assume g: "client_get_schedule (schedule_id app) b = (Inr found, b1)"
  then show "create_schedule config app dn b = (Inr AlreadyExists, b1)"
    by (simp add: create_schedule_def)
  from get_schedule_effect [OF g]
  show "schedules b1 = schedules b" "calls b1 = calls b @ [GetSchedule (schedule_id app)]"
    by simp_all
qed

text \<open>
  C1. Registration is idempotent. On a backend that holds at most one Schedule under the
  key \<open>news-monitor-<app>\<close>, any number of calls of \<open>create_schedule\<close> for the application
  in sequence leaves at most one Schedule under that key, and exactly one as soon as the
  calls outnumber the failures the environment injects. When the fetch of the Schedule
  under \<open>news-monitor-<app>\<close> succeeds, the call returns the "already exists" outcome, its
  only client operation is that fetch, and the registered Schedules are unchanged.
\<close>

theorem create_schedule_idempotent:
  "(schedule_count (''news-monitor-'' @ app) b \<le> 1 \<and> length (faults b) < n
      \<longrightarrow> schedule_count (''news-monitor-'' @ app) (register_times n config app dn b) = 1)
   \<and> (schedule_count (''news-monitor-'' @ app) b \<le> 1
      \<longrightarrow> schedule_count (''news-monitor-'' @ app) (register_times n config app dn b) \<le> 1)
   \<and> (\<forall>found b1. client_get_schedule (''news-monitor-'' @ app) b = (Inr found, b1)
      \<longrightarrow> create_schedule config app dn b = (Inr AlreadyExists, b1)
          \<and> schedules b1 = schedules b
          \<and> calls b1 = calls b @ [GetSchedule (''news-monitor-'' @ app)])"
  using register_times_idempotent [of app b n config dn] unfolding schedule_id_def .

theorem create_schedule_idempotent_witness:
  "schedule_count ''news-monitor-placement'' (fresh_backend [Some BackendError]) \<le> 1
   \<and> length (faults (fresh_backend [Some BackendError])) < 2
   \<and> schedule_count ''news-monitor-placement''
        (register_times 2 (load_config env_valid) ''placement'' ''Placement Agent Directory''
           (fresh_backend [Some BackendError])) = 1
   \<and> client_get_schedule ''news-monitor-placement'' placement_backend
       = (Inr (spec_schedule ''quest-content-queue'' ''placement'', SKIP),
          placement_backend\<lparr>calls := [GetSchedule ''news-monitor-placement'']\<rparr>)
   \<and> create_schedule (load_config env_valid) ''placement'' ''Placement Agent Directory''
        placement_backend
       = (Inr AlreadyExists, placement_backend\<lparr>calls := [GetSchedule ''news-monitor-placement'']\<rparr>)
   \<and> schedules (placement_backend\<lparr>calls := [GetSchedule ''news-monitor-placement'']\<rparr>)
       = schedules placement_backend"
proof -
  have k: "''news-monitor-'' @ ''placement'' = ''news-monitor-placement''"
    by simp
  have g: "client_get_schedule ''news-monitor-placement'' placement_backend
       = (Inr (spec_schedule ''quest-content-queue'' ''placement'', SKIP),
          placement_backend\<lparr>calls := [GetSchedule ''news-monitor-placement'']\<rparr>)"
    by (simp add: client_get_schedule_def next_fault_def record_call_def placement_backend_def)
  have c: "schedule_count ''news-monitor-placement'' (fresh_backend [Some BackendError]) \<le> 1"
    by (simp add: schedule_count_def fresh_backend_def)
  have f: "length (faults (fresh_backend [Some BackendError])) < 2"
    by (simp add: fresh_backend_def)
  have r: "schedule_count ''news-monitor-placement''
        (register_times 2 (load_config env_valid) ''placement'' ''Placement Agent Directory''
           (fresh_backend [Some BackendError])) = 1"
    using create_schedule_idempotent [of "''placement''" "fresh_backend [Some BackendError]" 2
            "load_config env_valid" "''Placement Agent Directory''", unfolded k] c f
    by blast
  have a: "create_schedule (load_config env_valid) ''placement'' ''Placement Agent Directory''
        placement_backend
       = (Inr AlreadyExists, placement_backend\<lparr>calls := [GetSchedule ''news-monitor-placement'']\<rparr>)
     \<and> schedules (placement_backend\<lparr>calls := [GetSchedule ''news-monitor-placement'']\<rparr>)
       = schedules placement_backend"
    using create_schedule_idempotent [of "''placement''" placement_backend 0
            "load_config env_valid" "''Placement Agent Directory''", unfolded k] g
    by blast
  from c f r g a show ?thesis by blast
qed

subsection \<open>Registration\<close>

lemma create_schedule_alt:
  "create_schedule config app dn b =
     (case client_get_schedule (schedule_id app) b of
        (Inr found, c1) \<Rightarrow> (Inr AlreadyExists, c1)
      | (Inl e, c1) \<Rightarrow>
          if \<not> is_Exception e then (Inl e, c1)
          else
            (case client_create_schedule (schedule_id app)
                    (spec_schedule (TEMPORAL_TASK_QUEUE config) app) SKIP c1 of
               (Inr u, c2) \<Rightarrow> (Inr Created, c2)
             | (Inl e', c2) \<Rightarrow> (Inl e', c2)))"
  unfolding create_schedule_def spec_schedule_def by (rule refl)

lemma valid_env_config: "validate_required (load_config env_valid) = []"
  by (simp add: validate_required_def required_def has_ai_def load_config_def env_valid_def
      getenv_def getenv_default_def truthy_str_def)

text \<open>
  C2, as stated, fails: a fetch that fails with a backend error is not propagated. The
  call goes on to the creation path and returns normally.
\<close>

theorem fetch_failure_not_propagated:
  "fst (client_get_schedule (schedule_id ''placement'') (fresh_backend [Some BackendError]))
     = Inl BackendError
   \<and> create_schedule (load_config env_valid) ''placement'' ''Placement Agent Directory''
       (fresh_backend [Some BackendError])
     = (Inr Created,
        \<lparr> schedules = [(''news-monitor-placement'',
                         spec_schedule (TEMPORAL_TASK_QUEUE (load_config env_valid)) ''placement'',
                         SKIP)],
          faults = [],
          calls = [GetSchedule ''news-monitor-placement'',
                   CreateSchedule ''news-monitor-placement''
                     (spec_schedule (TEMPORAL_TASK_QUEUE (load_config env_valid)) ''placement'')
                     SKIP] \<rparr>)"
  by (simp add: create_schedule_alt client_get_schedule_def client_create_schedule_def
      next_fault_def record_call_def fresh_backend_def schedule_id_def)

text \<open>
  C2, amended. Every failure of the fetch that is an \<open>Exception\<close>, the not-found failure
  and any other alike, is treated as absence: the creation is submitted and its result is
  the result of the call. Only a failure outside \<open>Exception\<close> (an interrupt) propagates.
\<close>

theorem fetch_failure_is_absence:
  "(client_get_schedule (schedule_id app) b = (Inl e, b1) \<and> is_Exception e \<longrightarrow>
      (\<exists>r b2. client_create_schedule (schedule_id app)
                 (spec_schedule (TEMPORAL_TASK_QUEUE config) app) SKIP b1 = (r, b2)
         \<and> create_schedule config app dn b = (map_sum id (\<lambda>u. Created) r, b2)))
   \<and> (client_get_schedule (schedule_id app) b = (Inl e, b1) \<and> \<not> is_Exception e \<longrightarrow>
        create_schedule config app dn b = (Inl e, b1))"
  by (auto simp: create_schedule_alt split: prod.splits sum.splits)

theorem fetch_failure_is_absence_witness:
  "client_get_schedule (schedule_id ''placement'') (fresh_backend [Some BackendError])
     = (Inl BackendError, \<lparr> schedules = [], faults = [],
                             calls = [GetSchedule ''news-monitor-placement''] \<rparr>)
   \<and> is_Exception BackendError
   \<and> fst (create_schedule (load_config env_valid) ''placement'' ''Placement Agent Directory''
            (fresh_backend [Some BackendError])) = Inr Created
   \<and> client_get_schedule (schedule_id ''placement'') (fresh_backend [Some KeyboardInterrupt])
     = (Inl KeyboardInterrupt, \<lparr> schedules = [], faults = [],
                             calls = [GetSchedule ''news-monitor-placement''] \<rparr>)
   \<and> \<not> is_Exception KeyboardInterrupt
   \<and> fst (create_schedule (load_config env_valid) ''placement'' ''Placement Agent Directory''
            (fresh_backend [Some KeyboardInterrupt])) = Inl KeyboardInterrupt"
  using fetch_failure_is_absence [of "''placement''" "fresh_backend [Some BackendError]"
          BackendError
          "\<lparr> schedules = [], faults = [], calls = [GetSchedule ''news-monitor-placement''] \<rparr>"
          "load_config env_valid" "''Placement Agent Directory''"]
        fetch_failure_is_absence [of "''placement''" "fresh_backend [Some KeyboardInterrupt]"
          KeyboardInterrupt
          "\<lparr> schedules = [], faults = [], calls = [GetSchedule ''news-monitor-placement''] \<rparr>"
          "load_config env_valid" "''Placement Agent Directory''"]
  by (auto simp: client_get_schedule_def client_create_schedule_def
      next_fault_def record_call_def fresh_backend_def schedule_id_def)

lemma get_schedule_no_fault:
  assumes "faults b = []"
  shows "client_get_schedule key b =
     (case map_of (schedules b) key of None \<Rightarrow> Inl NotFoundError | Some s \<Rightarrow> Inr s,
      b\<lparr>calls := calls b @ [GetSchedule key], faults := []\<rparr>)"
  using assms
  by (auto simp: client_get_schedule_def next_fault_record_call split: option.splits)

lemma create_schedule_fresh:
  assumes "schedule_id app \<notin> fst ` set (schedules b)" "faults b = []"
  shows "create_schedule config app dn b =
     (Inr Created,
      b\<lparr>calls := calls b @ [GetSchedule (schedule_id app),
                             CreateSchedule (schedule_id app)
                               (spec_schedule (TEMPORAL_TASK_QUEUE config) app) SKIP],
        faults := [],
        schedules := schedules b @ [(schedule_id app,
                                     spec_schedule (TEMPORAL_TASK_QUEUE config) app, SKIP)]\<rparr>)"
proof -
  have "map_of (schedules b) (schedule_id app) = None"
    using assms(1) by (simp add: map_of_eq_None_iff)
  then show ?thesis
    using assms
    by (simp add: create_schedule_alt get_schedule_no_fault create_op_no_fault)
qed

lemma create_schedule_fresh_fields:
  assumes "schedule_id app \<notin> fst ` set (schedules b)" "faults b = []"
  obtains b' where "create_schedule config app dn b = (Inr Created, b')"
    and "schedules b' = schedules b @ [(schedule_id app,
                                        spec_schedule (TEMPORAL_TASK_QUEUE config) app, SKIP)]"
    and "faults b' = []"
  using create_schedule_fresh [OF assms, of config dn] by simp

lemma connect_client_no_fault:
  assumes "faults b = []"
  shows "fst (connect_client config b) = Inr ()"
    "schedules (snd (connect_client config b)) = schedules b"
    "faults (snd (connect_client config b)) = []"
  using assms
  by (simp_all add: connect_client_def Client_connect_def next_fault_record_call)

lemma schedule_ids_distinct: "schedule_id ''relocation'' \<noteq> schedule_id ''placement''"
  by (simp add: schedule_id_def)

lemma startup_registers_both:
  assumes "validate_required config = []" "faults b = []" "schedules b = []"
  shows "fst (scheduler_main config b) = Inr ()"
    "schedules (snd (scheduler_main config b)) =
       [ (schedule_id ''placement'',
            spec_schedule (TEMPORAL_TASK_QUEUE config) ''placement'', SKIP),
         (schedule_id ''relocation'',
            spec_schedule (TEMPORAL_TASK_QUEUE config) ''relocation'', SKIP) ]"
proof -
  obtain c where c: "connect_client config b = (Inr (), c)"
    using connect_client_no_fault(1) [OF assms(2), of config]
    by (cases "connect_client config b") simp
  have c1: "schedules c = []" "faults c = []"
    using connect_client_no_fault(2,3) [OF assms(2), of config] assms(3) c by simp_all
  obtain b2 where p: "create_schedule config ''placement'' ''Placement Agent Directory'' c
        = (Inr Created, b2)"
    and p1: "schedules b2 = [(schedule_id ''placement'',
               spec_schedule (TEMPORAL_TASK_QUEUE config) ''placement'', SKIP)]"
       "faults b2 = []"
    using create_schedule_fresh_fields [of "''placement''" c config "''Placement Agent Directory''"]
      c1 by auto
  have "schedule_id ''relocation'' \<notin> fst ` set (schedules b2)"
    using p1(1) schedule_ids_distinct by simp
  then obtain b3 where r: "create_schedule config ''relocation'' ''Global Relocation Directory'' b2
        = (Inr Created, b3)"
    and r1: "schedules b3 = [(schedule_id ''placement'',
               spec_schedule (TEMPORAL_TASK_QUEUE config) ''placement'', SKIP),
             (schedule_id ''relocation'',
               spec_schedule (TEMPORAL_TASK_QUEUE config) ''relocation'', SKIP)]"
    using create_schedule_fresh_fields [of "''relocation''" b2 config
        "''Global Relocation Directory''"] p1 by auto
  have cs: "create_schedules config apps c = (Inr (), b3)"
    unfolding apps_def by (simp add: p r)
  show "fst (scheduler_main config b) = Inr ()"
    using assms(1) c cs by (simp add: scheduler_main_def)
  show "schedules (snd (scheduler_main config b)) =
       [ (schedule_id ''placement'',
            spec_schedule (TEMPORAL_TASK_QUEUE config) ''placement'', SKIP),
         (schedule_id ''relocation'',
            spec_schedule (TEMPORAL_TASK_QUEUE config) ''relocation'', SKIP) ]"
    using assms(1) c cs r1
    by (simp add: scheduler_main_def client_close_def record_call_def)
qed

text \<open>
  C3. When no Schedule exists under the key and the backend does not fail, registration
  submits, under the key \<open>news-monitor-<app>\<close> and with overlap policy SKIP, the Schedule
  of the specification on the configured queue: cron \<open>0 9 * * *\<close>, reuse policy \<open>1\<close>, one
  input with the application, 0.7, true and 3. The startup list registers the two
  Schedules of \<open>placement\<close> and \<open>relocation\<close>, which differ in the \<open>app\<close> entry only.
\<close>

theorem create_schedule_submits:
  "(schedule_id app \<notin> fst ` set (schedules b) \<and> faults b = [] \<longrightarrow>
      create_schedule config app dn b =
        (Inr Created,
         b\<lparr>calls := calls b @ [GetSchedule (''news-monitor-'' @ app),
                                CreateSchedule (''news-monitor-'' @ app)
                                  (spec_schedule (TEMPORAL_TASK_QUEUE config) app) SKIP],
           faults := [],
           schedules := schedules b @ [(''news-monitor-'' @ app,
                                        spec_schedule (TEMPORAL_TASK_QUEUE config) app, SKIP)]\<rparr>))
   \<and> (validate_required config = [] \<and> faults b = [] \<and> schedules b = [] \<longrightarrow>
        fst (scheduler_main config b) = Inr ()
        \<and> schedules (snd (scheduler_main config b)) =
            [ (''news-monitor-placement'',
                 spec_schedule (TEMPORAL_TASK_QUEUE config) ''placement'', SKIP),
              (''news-monitor-relocation'',
                 spec_schedule (TEMPORAL_TASK_QUEUE config) ''relocation'', SKIP) ])
   \<and> cron (schedule (spec_schedule q a)) = ''0 9 * * *''
   \<and> task_queue (action (spec_schedule q a)) = q
   \<and> workflow_id_reuse_policy (action (spec_schedule q a)) = 1
   \<and> input (action (spec_schedule q a)) =
        [ [ (''app'', PyStr a), (''min_relevance_score'', PyFloat 0.7),
           (''auto_create_articles'', PyBool True), (''max_articles_to_create'', PyInt 3) ] ]
   \<and> (spec_schedule q a)\<lparr>action := (action (spec_schedule q a))\<lparr>input := []\<rparr>\<rparr>
        = (spec_schedule q a')\<lparr>action := (action (spec_schedule q a'))\<lparr>input := []\<rparr>\<rparr>
   \<and> map (filter (\<lambda>(k, v). k \<noteq> ''app'')) (input (action (spec_schedule q a)))
        = map (filter (\<lambda>(k, v). k \<noteq> ''app'')) (input (action (spec_schedule q a')))"
proof (intro conjI impI)
  assume "schedule_id app \<notin> fst ` set (schedules b) \<and> faults b = []"
  then show "create_schedule config app dn b =
        (Inr Created,
         b\<lparr>calls := calls b @ [GetSchedule (''news-monitor-'' @ app),
                                CreateSchedule (''news-monitor-'' @ app)
                                  (spec_schedule (TEMPORAL_TASK_QUEUE config) app) SKIP],
           faults := [],
           schedules := schedules b @ [(''news-monitor-'' @ app,
                                        spec_schedule (TEMPORAL_TASK_QUEUE config) app, SKIP)]\<rparr>)"
    using create_schedule_fresh [of app b config dn] by (simp add: schedule_id_def)
next
  assume a: "validate_required config = [] \<and> faults b = [] \<and> schedules b = []"
  then show "fst (scheduler_main config b) = Inr ()"
    using startup_registers_both(1) by simp
  from a show "schedules (snd (scheduler_main config b)) =
            [ (''news-monitor-placement'',
                 spec_schedule (TEMPORAL_TASK_QUEUE config) ''placement'', SKIP),
              (''news-monitor-relocation'',
                 spec_schedule (TEMPORAL_TASK_QUEUE config) ''relocation'', SKIP) ]"
    using startup_registers_both(2) [of config b] by (simp add: schedule_id_def)
qed (simp_all add: spec_schedule_def)

theorem create_schedule_submits_witness:
  "schedule_id ''placement'' \<notin> fst ` set (schedules (fresh_backend []))
   \<and> faults (fresh_backend []) = [] \<and> schedules (fresh_backend []) = []
   \<and> validate_required (load_config env_valid) = []
   \<and> fst (create_schedule (load_config env_valid) ''placement'' ''Placement Agent Directory''
            (fresh_backend [])) = Inr Created
   \<and> map fst (schedules (snd (scheduler_main (load_config env_valid) (fresh_backend []))))
       = [''news-monitor-placement'', ''news-monitor-relocation'']"
  using create_schedule_submits [of "''placement''" "fresh_backend []" "load_config env_valid"
          "''Placement Agent Directory''"]
        valid_env_config
  by (simp add: fresh_backend_def)


lemma connect_client_calls:
  "\<exists>a n k t. calls (snd (connect_client config b)) = calls b @ [Connect a n k t]"
  by (auto simp: connect_client_def Client_connect_def next_fault_record_call
      split: list.splits option.splits)

lemma create_schedule_calls:
  "\<exists>cs. calls (snd (create_schedule config app dn b)) = calls b @ cs
        \<and> Close \<notin> set cs \<and> (\<forall>q w a. Run q w a \<notin> set cs)"
proof -
  obtain r b1 where g: "client_get_schedule (schedule_id app) b = (r, b1)"
    by (cases "client_get_schedule (schedule_id app) b")
  have c1: "calls b1 = calls b @ [GetSchedule (schedule_id app)]"
    using get_schedule_effect [OF g] by simp
  obtain r2 b2 where c: "client_create_schedule (schedule_id app)
      (spec_schedule (TEMPORAL_TASK_QUEUE config) app) SKIP b1 = (r2, b2)"
    by (cases "client_create_schedule (schedule_id app)
      (spec_schedule (TEMPORAL_TASK_QUEUE config) app) SKIP b1")
  have c2: "calls b2 = calls b @ [GetSchedule (schedule_id app),
      CreateSchedule (schedule_id app) (spec_schedule (TEMPORAL_TASK_QUEUE config) app) SKIP]"
    using create_op_effect(1) [OF c] c1 by simp
  have "snd (create_schedule config app dn b) = b1 \<or> snd (create_schedule config app dn b) = b2"
    using g c by (auto simp: create_schedule_alt split: sum.splits)
  then show ?thesis
    using c1 c2 by auto
qed

lemma create_schedules_calls:
  "\<exists>cs. calls (snd (create_schedules config as b)) = calls b @ cs
        \<and> Close \<notin> set cs \<and> (\<forall>q w a. Run q w a \<notin> set cs)"
proof (induction as arbitrary: b)
  case Nil
  then show ?case by simp
next
  case (Cons x as)
  obtain app dn where x: "x = (app, dn)" by (cases x)
  obtain r b1 where c: "create_schedule config app dn b = (r, b1)"
    by (cases "create_schedule config app dn b")
  obtain cs where cs: "calls b1 = calls b @ cs" "Close \<notin> set cs" "\<forall>q w a. Run q w a \<notin> set cs"
    using create_schedule_calls [of config app dn b] c by auto
  show ?case
  proof (cases r)
    case (Inl e)
    with x c cs show ?thesis by auto
  next
    case (Inr o')
    obtain cs' where cs': "calls (snd (create_schedules config as b1)) = calls b1 @ cs'"
      "Close \<notin> set cs'" "\<forall>q w a. Run q w a \<notin> set cs'"
      using Cons.IH [of b1] by auto
    have "calls (snd (create_schedules config (x # as) b)) = calls b @ (cs @ cs')"
      using x c Inr cs(1) cs'(1) by simp
    moreover have "Close \<notin> set (cs @ cs')" "\<forall>q w a. Run q w a \<notin> set (cs @ cs')"
      using cs cs' by auto
    ultimately show ?thesis by blast
  qed
qed

lemma scheduler_main_closes:
  assumes "fst (scheduler_main config b) = Inr ()"
  shows "\<exists>cs. calls (snd (scheduler_main config b)) = calls b @ cs @ [Close] \<and> Close \<notin> set cs"
proof -
  from assms have v: "validate_required config = []"
    by (auto simp: scheduler_main_def split: if_splits)
  obtain r c where cn: "connect_client config b = (r, c)"
    by (cases "connect_client config b")
  obtain r2 c2 where cr: "create_schedules config apps c = (r2, c2)"
    by (cases "create_schedules config apps c")
  from assms v cn cr have res: "scheduler_main config b = (Inr (), client_close c2)"
    by (auto simp: scheduler_main_def split: sum.splits)
  obtain a n k t where c1: "calls c = calls b @ [Connect a n k t]"
    using connect_client_calls [of config b] cn by auto
  obtain cs where cs: "calls c2 = calls c @ cs" "Close \<notin> set cs"
    using create_schedules_calls [of config apps c] cr by auto
  have "calls (snd (scheduler_main config b)) = calls b @ (Connect a n k t # cs) @ [Close]"
    using res c1 cs(1) by (simp add: client_close_def record_call_def)
  moreover have "Close \<notin> set (Connect a n k t # cs)" using cs(2) by simp
  ultimately show ?thesis by blast
qed

lemma worker_main_calls:
  "\<exists>cs. calls (snd (worker_main config b)) = calls b @ cs \<and> Close \<notin> set cs
     \<and> (\<forall>q w a. Run q w a \<in> set cs \<longrightarrow>
           q = TEMPORAL_TASK_QUEUE config \<and> q \<noteq> [] \<and> w @ a \<noteq> [])"
proof (cases "validate_required config = []")
  case False
  then show ?thesis by (simp add: worker_main_def)
next
  case True
  obtain r c where cn: "connect_client config b = (r, c)"
    by (cases "connect_client config b")
  obtain a n k t where c1: "calls c = calls b @ [Connect a n k t]"
    using connect_client_calls [of config b] cn by auto
  show ?thesis
  proof (cases r)
    case (Inl e)
    with True cn c1 show ?thesis by (simp add: worker_main_def)
  next
    case (Inr u)
    show ?thesis
    proof (cases "TEMPORAL_TASK_QUEUE config = []")
      case True
      with \<open>validate_required config = []\<close> cn Inr c1 show ?thesis
        by (simp add: worker_main_def Worker_def)
    next
      case False
      with True cn Inr c1 show ?thesis
        by (simp add: worker_main_def Worker_def worker_run_def next_fault_record_call
            split: list.splits option.splits)
    qed
  qed
qed

lemma empty_queue_invalid:
  assumes "TEMPORAL_TASK_QUEUE config = []"
  shows "validate_required config \<noteq> []"
proof -
  have "''TEMPORAL_TASK_QUEUE'' \<in> set (validate_required config)"
    using assms
    by (simp add: validate_required_mem AI_MISSING_ITEM_def required_def truthy_str_def)
  then show ?thesis by auto
qed

subsection \<open>Failures and exit status\<close>


lemma fresh_get [simp]:
  "client_get_schedule k (fresh_backend (f # fs)) =
     (case f of Some e \<Rightarrow> Inl e | None \<Rightarrow> Inl NotFoundError,
      \<lparr> schedules = [], faults = fs, calls = [GetSchedule k] \<rparr>)"
  by (simp add: client_get_schedule_def next_fault_def record_call_def fresh_backend_def
      split: option.splits)


subsection \<open>Closing the session\<close>

text \<open>
  C6, as stated, fails: a worker whose dispatch loop crashes after connecting, and a
  registrar whose creation fails after connecting, exit with status 1 and never invoke
  \<open>close\<close>.
\<close>

theorem close_not_on_every_path:
  "worker_process (load_config env_valid) (fresh_backend [None, Some BackendError])
     = (Some 1,
        \<lparr> schedules = [], faults = [],
          calls = [Connect ''localhost:7233'' ''default'' None False,
                   Run ''quest-content-queue'' [''NewsCreationWorkflow'']
                     [ ''dataforseo_news_search'', ''serper_news_search'',
                       ''assess_news_batch'', ''get_recent_articles_from_neon'',
                       ''query_zep_for_context'', ''build_intelligent_video_prompt'' ] ] \<rparr>)
   \<and> scheduler_process (load_config env_valid) (fresh_backend [None, None, Some BackendError])
     = (1,
        \<lparr> schedules = [], faults = [],
          calls = [Connect ''localhost:7233'' ''default'' None False,
                   GetSchedule ''news-monitor-placement'',
                   CreateSchedule ''news-monitor-placement''
                     (spec_schedule ''quest-content-queue'' ''placement'') SKIP] \<rparr>)"
proof -
  let ?cfg = "load_config env_valid"
  have f: "TEMPORAL_ADDRESS ?cfg = ''localhost:7233''" "TEMPORAL_NAMESPACE ?cfg = ''default''"
    "TEMPORAL_TASK_QUEUE ?cfg = ''quest-content-queue''" "TEMPORAL_API_KEY ?cfg = None"
    by (simp_all add: load_config_def env_valid_def getenv_def getenv_default_def)
  have cn: "\<And>fs. connect_client ?cfg (fresh_backend (None # fs))
      = (Inr (), \<lparr> schedules = [], faults = fs,
                   calls = [Connect ''localhost:7233'' ''default'' None False] \<rparr>)"
    by (simp add: connect_client_def Client_connect_def next_fault_def record_call_def
        fresh_backend_def f)
  have w: "worker_process ?cfg (fresh_backend [None, Some BackendError])
     = (Some 1,
        \<lparr> schedules = [], faults = [],
          calls = [Connect ''localhost:7233'' ''default'' None False,
                   Run ''quest-content-queue'' [''NewsCreationWorkflow'']
                     [ ''dataforseo_news_search'', ''serper_news_search'',
                       ''assess_news_batch'', ''get_recent_articles_from_neon'',
                       ''query_zep_for_context'', ''build_intelligent_video_prompt'' ] ] \<rparr>)"
    by (simp add: worker_process_def worker_main_def valid_env_config cn f Worker_def
        worker_run_def next_fault_def record_call_def)
  have s: "scheduler_process ?cfg (fresh_backend [None, None, Some BackendError])
     = (1,
        \<lparr> schedules = [], faults = [],
          calls = [Connect ''localhost:7233'' ''default'' None False,
                   GetSchedule ''news-monitor-placement'',
                   CreateSchedule ''news-monitor-placement''
                     (spec_schedule ''quest-content-queue'' ''placement'') SKIP] \<rparr>)"
    by (simp add: scheduler_process_def scheduler_main_def valid_env_config cn f apps_def
        create_schedule_alt client_get_schedule_def client_create_schedule_def
        next_fault_def record_call_def schedule_id_def)
  from w s show ?thesis by simp
qed

text \<open>
  C6, amended. When the registrar connects and every registration succeeds, \<open>close\<close> is
  its last client operation and is invoked once. The worker process invokes \<open>close\<close> on
  no path.
\<close>

theorem close_on_success_only:
  "(fst (scheduler_main config b) = Inr () \<longrightarrow>
      (\<exists>cs. new_calls b (snd (scheduler_main config b)) = cs @ [Close] \<and> Close \<notin> set cs))
   \<and> Close \<notin> set (new_calls b (snd (worker_main config b)))"
proof (intro conjI impI)
  assume "fst (scheduler_main config b) = Inr ()"
  then obtain cs where "calls (snd (scheduler_main config b)) = calls b @ cs @ [Close]"
    "Close \<notin> set cs"
    using scheduler_main_closes by blast
  then show "\<exists>cs. new_calls b (snd (scheduler_main config b)) = cs @ [Close] \<and> Close \<notin> set cs"
    by (simp add: new_calls_def)
next
  obtain cs where "calls (snd (worker_main config b)) = calls b @ cs" "Close \<notin> set cs"
    using worker_main_calls [of config b] by blast
  then show "Close \<notin> set (new_calls b (snd (worker_main config b)))"
    by (simp add: new_calls_def)
qed

theorem close_on_success_only_witness:
  "fst (scheduler_main (load_config env_valid) (fresh_backend [])) = Inr ()
   \<and> (\<exists>cs. new_calls (fresh_backend [])
              (snd (scheduler_main (load_config env_valid) (fresh_backend []))) = cs @ [Close]
            \<and> Close \<notin> set cs)"
proof -
  have "fst (scheduler_main (load_config env_valid) (fresh_backend [])) = Inr ()"
    using startup_registers_both(1) [of "load_config env_valid" "fresh_backend []"]
      valid_env_config by (simp add: fresh_backend_def)
  then show ?thesis
    using close_on_success_only [of "load_config env_valid" "fresh_backend []"] by simp
qed

subsection \<open>Worker startup\<close>

text \<open>
  C7. A worker whose queue name is empty exits with status 1 before any client
  operation. The dispatch loop is entered only with the configured, non-empty queue name
  and a non-empty handler set, and a worker that stays in the loop has entered it so.
  Binding an empty queue name or an empty handler set fails.
\<close>

theorem worker_fails_fast:
  "(TEMPORAL_TASK_QUEUE config = [] \<longrightarrow> worker_process config b = (Some 1, b))
   \<and> (Run q wfs acts \<in> set (new_calls b (snd (worker_main config b)))
      \<longrightarrow> q = TEMPORAL_TASK_QUEUE config \<and> q \<noteq> [] \<and> wfs @ acts \<noteq> [])
   \<and> (fst (worker_main config b) = None
      \<longrightarrow> TEMPORAL_TASK_QUEUE config \<noteq> []
          \<and> (\<exists>w a. w @ a \<noteq> []
                \<and> Run (TEMPORAL_TASK_QUEUE config) w a
                     \<in> set (new_calls b (snd (worker_main config b)))))
   \<and> (q = [] \<or> wfs @ acts = [] \<longrightarrow> (\<exists>e. Worker q wfs acts = Inl e))"
proof (intro conjI impI)
  assume "TEMPORAL_TASK_QUEUE config = []"
  then show "worker_process config b = (Some 1, b)"
    using empty_queue_invalid [of config] by (simp add: worker_process_def worker_main_def)
next
  assume r: "Run q wfs acts \<in> set (new_calls b (snd (worker_main config b)))"
  obtain cs where cs: "calls (snd (worker_main config b)) = calls b @ cs"
    "\<forall>q w a. Run q w a \<in> set cs \<longrightarrow>
           q = TEMPORAL_TASK_QUEUE config \<and> q \<noteq> [] \<and> w @ a \<noteq> []"
    using worker_main_calls [of config b] by blast
  from r cs(1) have "Run q wfs acts \<in> set cs" by (simp add: new_calls_def)
  with cs(2) show "q = TEMPORAL_TASK_QUEUE config" "q \<noteq> []" "wfs @ acts \<noteq> []"
    by blast+
next
  assume n: "fst (worker_main config b) = None"
  then have v: "validate_required config = []"
    by (auto simp: worker_main_def split: if_splits)
  then show "TEMPORAL_TASK_QUEUE config \<noteq> []"
    using empty_queue_invalid [of config] by auto
  obtain r c where cn: "connect_client config b = (r, c)"
    by (cases "connect_client config b")
  obtain a' n' k t where c1: "calls c = calls b @ [Connect a' n' k t]"
    using connect_client_calls [of config b] cn by auto
  from n v cn \<open>TEMPORAL_TASK_QUEUE config \<noteq> []\<close> c1
  show "\<exists>w a. w @ a \<noteq> []
                \<and> Run (TEMPORAL_TASK_QUEUE config) w a
                     \<in> set (new_calls b (snd (worker_main config b)))"
    by (auto simp: worker_main_def Worker_def worker_run_def next_fault_record_call new_calls_def
        split: sum.splits list.splits option.splits)
next
  assume "q = [] \<or> wfs @ acts = []"
  then show "\<exists>e. Worker q wfs acts = Inl e"
    by (auto simp: Worker_def)
qed

theorem worker_fails_fast_witness:
  "TEMPORAL_TASK_QUEUE (load_config env_empty_queue) = []
   \<and> worker_process (load_config env_empty_queue) (fresh_backend [])
       = (Some 1, fresh_backend [])
   \<and> fst (worker_main (load_config env_valid) (fresh_backend [])) = None
   \<and> TEMPORAL_TASK_QUEUE (load_config env_valid) \<noteq> []
   \<and> (\<exists>e. Worker [] [''NewsCreationWorkflow''] [''assess_news_batch''] = Inl e)
   \<and> (\<exists>e. Worker ''quest-content-queue'' [] [] = Inl e)"
proof -
  let ?cfg = "load_config env_valid"
  have q: "TEMPORAL_TASK_QUEUE (load_config env_empty_queue) = []"
    by (simp add: load_config_def env_empty_queue_def getenv_default_def)
  have f: "TEMPORAL_TASK_QUEUE ?cfg = ''quest-content-queue''" "TEMPORAL_API_KEY ?cfg = None"
    by (simp_all add: load_config_def env_valid_def getenv_def getenv_default_def)
  have n: "fst (worker_main ?cfg (fresh_backend [])) = None"
    by (simp add: worker_main_def valid_env_config connect_client_def Client_connect_def
        Worker_def worker_run_def next_fault_def record_call_def fresh_backend_def f)
  have 1: "worker_process (load_config env_empty_queue) (fresh_backend [])
       = (Some 1, fresh_backend [])"
    using worker_fails_fast [of "load_config env_empty_queue" "fresh_backend []"
            "[]" "[''NewsCreationWorkflow'']" "[''assess_news_batch'']"] q
    by blast
  have 2: "\<exists>e. Worker [] [''NewsCreationWorkflow''] [''assess_news_batch''] = Inl e"
    using worker_fails_fast [of "load_config env_empty_queue" "fresh_backend []"
            "[]" "[''NewsCreationWorkflow'']" "[''assess_news_batch'']"]
    by blast
  have 3: "TEMPORAL_TASK_QUEUE ?cfg \<noteq> []"
    using worker_fails_fast [of ?cfg "fresh_backend []" "''quest-content-queue''" "[]" "[]"] n
    by blast
  have 4: "\<exists>e. Worker ''quest-content-queue'' [] [] = Inl e"
    using worker_fails_fast [of ?cfg "fresh_backend []" "''quest-content-queue''" "[]" "[]"]
    by simp
  from q 1 n 3 2 4 show ?thesis by blast
qed

end
